theory Spec2Isabelle
  imports Main "HOL-Library.Sublist"
begin

section \<open>The benchmark suite \<^verbatim>\<open>llm_benchmark_suite.py\<close>\<close>

text \<open>
  A shallow embedding of \<^verbatim>\<open>src/llm_benchmark_suite.py\<close>. Python strings are lists of
  characters (code points below 256), a \<^verbatim>\<open>dict\<close> is an association list in insertion
  order, the objects of class \<^verbatim>\<open>_Llm\<close> are records, and every exception of the source
  is a value of type \<open>error\<close>. What the module takes from outside (the process
  environment, the clock, \<^verbatim>\<open>llm_benchmark.run\<close>, \<^verbatim>\<open>json.dumps\<close>, the formatting of
  floats and the upload to the bucket) is a field of the record \<open>world\<close>.
\<close>

subsection \<open>Values, dictionaries and errors\<close>

text \<open>
  The values stored in \<^verbatim>\<open>_Llm.args\<close>: a string, or \<^verbatim>\<open>None\<close> where \<^verbatim>\<open>os.getenv\<close> found
  no variable. \<open>py_str\<close> is what an f-string prints for the value.
\<close>

datatype pyval = PyNone | PyStr string

fun py_str :: "pyval \<Rightarrow> string" where
  "py_str PyNone = ''None''"
| "py_str (PyStr s) = s"

type_synonym pydict = "(string \<times> pyval) list"

datatype error =
    UnknownMode string    \<comment> \<open>\<^verbatim>\<open>ValueError(f"Unknown mode {mode}")\<close>\<close>
  | KeyError string       \<comment> \<open>a missing key in \<^verbatim>\<open>m.args["model"]\<close>\<close>
  | TypeError             \<comment> \<open>\<^verbatim>\<open>filter in None\<close>\<close>
  | InvocationRaised      \<comment> \<open>an exception of a task, re-raised by \<^verbatim>\<open>asyncio.gather\<close>\<close>
  | FormatSpecError       \<comment> \<open>\<^verbatim>\<open>ValueError\<close> of a format specification with a negative width\<close>
  | UploadFailed          \<comment> \<open>an exception of \<^verbatim>\<open>storage.upload\<close>\<close>

text \<open>
  \<^verbatim>\<open>d[k] = v\<close> on an insertion-ordered dictionary: an existing key keeps its place and
  takes the new value, a new key goes to the end.
\<close>

fun dict_set :: "string \<Rightarrow> pyval \<Rightarrow> pydict \<Rightarrow> pydict" where
  "dict_set k v [] = [(k, v)]"
| "dict_set k v ((k', v') # d) = (if k' = k then (k, v) # d else (k', v') # dict_set k v d)"

text \<open>\<^verbatim>\<open>d.update(kwargs)\<close>: the items of \<open>kwargs\<close> are stored one after the other.\<close>

fun dict_update :: "pydict \<Rightarrow> pydict \<Rightarrow> pydict" where
  "dict_update d [] = d"
| "dict_update d ((k, v) # kw) = dict_update (dict_set k v d) kw"

text \<open>\<^verbatim>\<open>k.replace('_', '-')\<close>\<close>

definition dashes :: "string \<Rightarrow> string" where
  "dashes k = map (\<lambda>c. if c = CHR ''_'' then CHR ''-'' else c) k"

text \<open>\<^verbatim>\<open>[f"--{k.replace('_', '-')}={v}" for k, v in d.items()]\<close>\<close>

definition dict_to_argv :: "pydict \<Rightarrow> string list" where
  "dict_to_argv d = map (\<lambda>(k, v). ''--'' @ dashes k @ ''='' @ py_str v) d"

subsection \<open>The class \<^verbatim>\<open>_Llm\<close> and its subclasses\<close>

record llm =
  args :: pydict
  pass_argv :: "string list"

text \<open>
  \<^verbatim>\<open>_Llm.__init__(self, model, **kwargs)\<close>: the dictionary display
  \<^verbatim>\<open>{"model": model, **kwargs, "format": "none"}\<close> stores its items from left to right.
  The callers of this module pass the keywords \<^verbatim>\<open>api_key\<close> and \<^verbatim>\<open>base_url\<close> only (a
  keyword \<^verbatim>\<open>model\<close> would be refused by Python at the call).
\<close>

definition Llm :: "string \<Rightarrow> pydict \<Rightarrow> llm" where
  "Llm model kwargs =
     \<lparr>args = dict_set ''format'' (PyStr ''none'') (dict_update [(''model'', PyStr model)] kwargs),
      pass_argv = []\<rparr>"

text \<open>
  \<^verbatim>\<open>_Llm.apply(self, pass_argv, **kwargs)\<close> assigns to the two attributes of \<open>self\<close>;
  the function takes the state of the object and returns its new state.
\<close>

definition Llm_apply :: "llm \<Rightarrow> string list \<Rightarrow> pydict \<Rightarrow> llm" where
  "Llm_apply self pargv kwargs =
     self\<lparr>pass_argv := pargv, args := dict_update (args self) kwargs\<rparr>"

text \<open>\<^verbatim>\<open>full_argv\<close> of \<^verbatim>\<open>_Llm.run\<close>, the command line handed to \<^verbatim>\<open>llm_benchmark.run\<close>.\<close>

definition full_argv :: "llm \<Rightarrow> string list" where
  "full_argv self = dict_to_argv (args self) @ pass_argv self"

text \<open>\<^verbatim>\<open>os.getenv(name)\<close> on an environment \<open>env\<close>.\<close>

type_synonym environ = "string \<Rightarrow> string option"

definition os_getenv :: "environ \<Rightarrow> string \<Rightarrow> pyval" where
  "os_getenv env name = (case env name of None \<Rightarrow> PyNone | Some s \<Rightarrow> PyStr s)"

definition AnyscaleLlm :: "environ \<Rightarrow> string \<Rightarrow> llm" where
  "AnyscaleLlm env model =
     Llm model [(''api_key'', os_getenv env ''ANYSCALE_API_KEY''),
                (''base_url'', PyStr ''https://api.endpoints.anyscale.com/v1'')]"

definition FireworksLlm :: "environ \<Rightarrow> string \<Rightarrow> llm" where
  "FireworksLlm env model =
     Llm model [(''api_key'', os_getenv env ''FIREWORKS_API_KEY''),
                (''base_url'', PyStr ''https://api.fireworks.ai/inference/v1'')]"

definition GroqLlm :: "environ \<Rightarrow> string \<Rightarrow> llm" where
  "GroqLlm env model =
     Llm model [(''api_key'', os_getenv env ''GROQ_API_KEY''),
                (''base_url'', PyStr ''https://api.groq.com/openai/v1'')]"

definition OctoLlm :: "environ \<Rightarrow> string \<Rightarrow> llm" where
  "OctoLlm env model =
     Llm model [(''api_key'', os_getenv env ''OCTOML_API_KEY''),
                (''base_url'', PyStr ''https://text.octoai.run/v1'')]"

definition PerplexityLlm :: "environ \<Rightarrow> string \<Rightarrow> llm" where
  "PerplexityLlm env model =
     Llm model [(''api_key'', os_getenv env ''PERPLEXITY_API_KEY''),
                (''base_url'', PyStr ''https://api.perplexity.ai'')]"

definition TogetherLlm :: "environ \<Rightarrow> string \<Rightarrow> llm" where
  "TogetherLlm env model =
     Llm model [(''api_key'', os_getenv env ''TOGETHER_API_KEY''),
                (''base_url'', PyStr ''https://api.together.xyz/v1'')]"

subsection \<open>The rosters\<close>

definition text_models :: "environ \<Rightarrow> llm list" where
  "text_models env =
    (let AZURE_EASTUS2_OPENAI_API_KEY = os_getenv env ''AZURE_EASTUS2_OPENAI_API_KEY'' in
     [Llm ''gpt-4-turbo'' [],
      Llm ''gpt-4-0125-preview'' [],
      Llm ''gpt-4-0125-preview''
        [(''api_key'', os_getenv env ''AZURE_SCENTRALUS_OPENAI_API_KEY''),
         (''base_url'', PyStr ''https://fixie-scentralus.openai.azure.com'')],
      Llm ''gpt-4-1106-preview'' [],
      Llm ''gpt-4-1106-preview'' [(''base_url'', PyStr ''https://fixie-westus.openai.azure.com'')],
      Llm ''gpt-4-1106-preview''
        [(''api_key'', AZURE_EASTUS2_OPENAI_API_KEY),
         (''base_url'', PyStr ''https://fixie-openai-sub-with-gpt4.openai.azure.com'')],
      Llm ''gpt-4-1106-preview''
        [(''api_key'', os_getenv env ''AZURE_FRCENTRAL_OPENAI_API_KEY''),
         (''base_url'', PyStr ''https://fixie-frcentral.openai.azure.com'')],
      Llm ''gpt-4-1106-preview''
        [(''api_key'', os_getenv env ''AZURE_SECENTRAL_OPENAI_API_KEY''),
         (''base_url'', PyStr ''https://fixie-secentral.openai.azure.com'')],
      Llm ''gpt-4-1106-preview''
        [(''api_key'', os_getenv env ''AZURE_UKSOUTH_OPENAI_API_KEY''),
         (''base_url'', PyStr ''https://fixie-uksouth.openai.azure.com'')],
      Llm ''gpt-3.5-turbo-0125'' [],
      Llm ''gpt-3.5-turbo-1106'' [],
      Llm ''gpt-3.5-turbo-1106'' [(''base_url'', PyStr ''https://fixie-westus.openai.azure.com'')],
      Llm ''gpt-3.5-turbo''
        [(''api_key'', AZURE_EASTUS2_OPENAI_API_KEY),
         (''base_url'', PyStr ''https://fixie-openai-sub-with-gpt4.openai.azure.com'')],
      Llm ''claude-3-opus-20240229'' [],
      Llm ''claude-3-sonnet-20240229'' [],
      Llm ''claude-3-haiku-20240307'' [],
      Llm ''claude-2.1'' [],
      Llm ''claude-instant-1.2'' [],
      Llm ''command-r-plus'' [],
      Llm ''command-r'' [],
      Llm ''command-light'' [],
      Llm ''gemini-pro'' [],
      Llm ''gemini-1.5-pro-preview-0409'' [],
      Llm ''''
        [(''api_key'', os_getenv env ''AZURE_EASTUS2_MISTRAL_API_KEY''),
         (''base_url'',
          PyStr ''https://fixie-mistral-serverless.eastus2.inference.ai.azure.com/v1'')],
      AnyscaleLlm env ''mistralai/Mixtral-8x7B-Instruct-v0.1'',
      FireworksLlm env ''accounts/fireworks/models/mixtral-8x7b-instruct'',
      GroqLlm env ''mixtral-8x7b-32768'',
      OctoLlm env ''mixtral-8x7b-instruct'',
      PerplexityLlm env ''mixtral-8x7b-instruct'',
      PerplexityLlm env ''sonar-medium-chat'',
      AnyscaleLlm env ''meta-llama/Llama-3-70b-chat-hf'',
      FireworksLlm env ''accounts/fireworks/models/llama-v3-70b-instruct'',
      GroqLlm env ''llama3-70b-8192'',
      PerplexityLlm env ''llama-3-70b-instruct'',
      TogetherLlm env ''meta-llama/Llama-3-70b-chat-hf'',
      Llm ''''
        [(''api_key'', os_getenv env ''AZURE_WESTUS3_LLAMA2_API_KEY''),
         (''base_url'',
          PyStr ''https://fixie-llama-2-70b-serverless.westus3.inference.ai.azure.com/v1'')],
      Llm ''''
        [(''api_key'', os_getenv env ''AZURE_EASTUS2_LLAMA2_API_KEY''),
         (''base_url'',
          PyStr ''https://fixie-llama-2-70b-serverless.eastus2.inference.ai.azure.com/v1'')],
      AnyscaleLlm env ''meta-llama/Llama-2-70b-chat-hf'',
      FireworksLlm env ''accounts/fireworks/models/llama-v2-70b-chat'',
      GroqLlm env ''llama2-70b-4096'',
      OctoLlm env ''llama-2-70b-chat-fp16'',
      TogetherLlm env ''togethercomputer/llama-2-70b-chat'',
      FireworksLlm env ''accounts/fireworks/models/llama-v2-13b-chat'',
      AnyscaleLlm env ''meta-llama/Llama-2-13b-chat-hf'',
      TogetherLlm env ''togethercomputer/llama-2-13b-chat'',
      OctoLlm env ''llama-2-13b-chat-fp16'',
      AnyscaleLlm env ''meta-llama/Llama-3-8b-chat-hf'',
      FireworksLlm env ''accounts/fireworks/models/llama-v3-8b-instruct'',
      GroqLlm env ''llama3-8b-8192'',
      PerplexityLlm env ''llama-3-8b-instruct'',
      TogetherLlm env ''meta-llama/Llama-3-8b-chat-hf'',
      AnyscaleLlm env ''meta-llama/Llama-2-7b-chat-hf'',
      FireworksLlm env ''accounts/fireworks/models/llama-v2-7b-chat'',
      TogetherLlm env ''togethercomputer/llama-2-7b-chat'',
      Llm ''@cf/meta/llama-2-7b-chat-fp16'' [],
      Llm ''@cf/meta/llama-2-7b-chat-int8'' []])"

definition image_models :: "llm list" where
  "image_models =
     [Llm ''gpt-4-turbo'' [],
      Llm ''gpt-4-vision-preview'' [(''base_url'', PyStr ''https://fixie-westus.openai.azure.com'')],
      Llm ''claude-3-opus-20240229'' [],
      Llm ''claude-3-sonnet-20240229'' [],
      Llm ''gemini-pro-vision'' [],
      Llm ''gemini-1.5-pro-preview-0409'' []]"

definition av_models :: "llm list" where
  "av_models = [Llm ''gemini-1.5-pro-preview-0409'' []]"

text \<open>The dictionary \<^verbatim>\<open>mode_map\<close> of \<^verbatim>\<open>_get_models\<close>, applied to the mode.\<close>

definition mode_map :: "environ \<Rightarrow> string \<Rightarrow> llm list option" where
  "mode_map env mode =
     (if mode = ''text'' then Some (text_models env)
      else if mode = ''image'' then Some image_models
      else if mode = ''audio'' then Some av_models
      else if mode = ''video'' then Some av_models
      else None)"

text \<open>
  \<^verbatim>\<open>filter in m.args["model"]\<close>: the subscription raises \<^verbatim>\<open>KeyError\<close> on a missing key,
  \<^verbatim>\<open>in\<close> raises \<^verbatim>\<open>TypeError\<close> on \<^verbatim>\<open>None\<close> and is the substring test on a string.
\<close>

fun str_contains :: "string \<Rightarrow> string \<Rightarrow> bool" where
  "str_contains f [] = (f = [])"
| "str_contains f (c # s) = (prefix f (c # s) \<or> str_contains f s)"

definition model_contains :: "string \<Rightarrow> llm \<Rightarrow> error + bool" where
  "model_contains f m =
     (case map_of (args m) ''model'' of
        None \<Rightarrow> Inl (KeyError ''model'')
      | Some PyNone \<Rightarrow> Inl TypeError
      | Some (PyStr s) \<Rightarrow> Inr (str_contains f s))"

text \<open>The model identifier of an entry: \<^verbatim>\<open>m.args["model"]\<close> where it is a string.\<close>

definition model_id :: "llm \<Rightarrow> string option" where
  "model_id m = (case map_of (args m) ''model'' of Some (PyStr s) \<Rightarrow> Some s | _ \<Rightarrow> None)"

text \<open>
  The comprehension \<^verbatim>\<open>[m for m in models if not filter or filter in m.args["model"]]\<close>;
  \<^verbatim>\<open>not filter\<close> holds for \<^verbatim>\<open>None\<close> and for the empty string, and then the right
  operand of \<^verbatim>\<open>or\<close> is not evaluated.
\<close>

fun select_models :: "string option \<Rightarrow> llm list \<Rightarrow> error + llm list" where
  "select_models flt [] = Inr []"
| "select_models flt (m # ms) =
     (if flt = None \<or> flt = Some []
      then (case select_models flt ms of Inl e \<Rightarrow> Inl e | Inr r \<Rightarrow> Inr (m # r))
      else (case model_contains (the flt) m of
              Inl e \<Rightarrow> Inl e
            | Inr b \<Rightarrow>
               (case select_models flt ms of
                  Inl e \<Rightarrow> Inl e
                | Inr r \<Rightarrow> Inr (if b then m # r else r))))"

definition get_models :: "environ \<Rightarrow> string \<Rightarrow> string option \<Rightarrow> error + llm list" where
  "get_models env mode flt =
     (case mode_map env mode of
        None \<Rightarrow> Inl (UnknownMode mode)
      | Some models \<Rightarrow> select_models flt models)"

subsection \<open>Strings, numbers and dates as Python prints them\<close>

text \<open>\<^verbatim>\<open>sep.join(xs)\<close>\<close>

fun str_join :: "string \<Rightarrow> string list \<Rightarrow> string" where
  "str_join sep [] = []"
| "str_join sep [x] = x"
| "str_join sep (x # y # xs) = x @ sep @ str_join sep (y # xs)"

text \<open>The decimal digits of a natural number and of an integer (\<^verbatim>\<open>str(n)\<close>).\<close>

definition digit :: "nat \<Rightarrow> char" where
  "digit n = ''0123456789'' ! (n mod 10)"

fun str_nat :: "nat \<Rightarrow> string" where
  "str_nat n = (if n < 10 then [digit n] else str_nat (n div 10) @ [digit n])"

declare str_nat.simps [simp del]

definition str_int :: "int \<Rightarrow> string" where
  "str_int i = (if i < 0 then ''-'' @ str_nat (nat (- i)) else str_nat (nat i))"

text \<open>
  A format specification \<^verbatim>\<open>{s:F<W.P}\<close> on a string: the string is cut to \<open>P\<close> characters and
  filled on the right with \<open>F\<close> up to \<open>W\<close> characters. \<^verbatim>\<open>{s:W}\<close> only fills, with spaces;
  \<^verbatim>\<open>{n:W}\<close> on an integer fills on the left.
\<close>

definition fmt_str :: "char \<Rightarrow> nat \<Rightarrow> nat \<Rightarrow> string \<Rightarrow> string" where
  "fmt_str fill width prec s =
     (let t = take prec s in t @ replicate (width - length t) fill)"

definition ljust :: "nat \<Rightarrow> string \<Rightarrow> string" where
  "ljust width s = s @ replicate (width - length s) CHR '' ''"

definition rjust :: "char \<Rightarrow> nat \<Rightarrow> string \<Rightarrow> string" where
  "rjust fill width s = replicate (width - length s) fill @ s"

text \<open>\<^verbatim>\<open>s.replace("\n", "\\n")\<close>: a line feed becomes a backslash and the letter n.\<close>

definition replace_newlines :: "string \<Rightarrow> string" where
  "replace_newlines s = concat (map (\<lambda>c. if c = CHR 0x0A then [CHR 0x5C, CHR ''n''] else [c]) s)"

text \<open>\<^verbatim>\<open>s.strip()\<close> removes the characters of \<^verbatim>\<open>str.isspace\<close> at both ends.\<close>

definition isspace :: "char \<Rightarrow> bool" where
  "isspace c \<longleftrightarrow>
     c \<in> set [CHR 0x09, CHR 0x0A, CHR 0x0B, CHR 0x0C, CHR 0x0D, CHR 0x1C, CHR 0x1D, CHR 0x1E,
              CHR 0x1F, CHR 0x20, CHR 0x85, CHR 0xA0]"

definition strip :: "string \<Rightarrow> string" where
  "strip s = rev (dropWhile isspace (rev (dropWhile isspace s)))"

text \<open>
  \<^verbatim>\<open>datetime.datetime.now()\<close> is a date and a time of day without a time zone, and
  \<^verbatim>\<open>isoformat()\<close> prints it as \<^verbatim>\<open>YYYY-MM-DDTHH:MM:SS\<close>, followed by \<^verbatim>\<open>.ffffff\<close> when the
  microseconds are not zero.
\<close>

record datetime =
  year :: nat
  month :: nat
  day :: nat
  hour :: nat
  minute :: nat
  second :: nat
  microsecond :: nat

definition isodate :: "datetime \<Rightarrow> string" where
  "isodate d =
     rjust CHR ''0'' 4 (str_nat (year d)) @ ''-'' @ rjust CHR ''0'' 2 (str_nat (month d)) @ ''-''
       @ rjust CHR ''0'' 2 (str_nat (day d))"

definition isoformat :: "datetime \<Rightarrow> string" where
  "isoformat d =
     isodate d @ ''T'' @ rjust CHR ''0'' 2 (str_nat (hour d)) @ '':''
       @ rjust CHR ''0'' 2 (str_nat (minute d)) @ '':'' @ rjust CHR ''0'' 2 (str_nat (second d))
       @ (if microsecond d = 0 then [] else ''.'' @ rjust CHR ''0'' 6 (str_nat (microsecond d)))"

text \<open>\<^verbatim>\<open>s.split('T')[0]\<close>: what stands before the first \<^verbatim>\<open>T\<close>, or all of \<open>s\<close>.\<close>

definition split_T_0 :: "string \<Rightarrow> string" where
  "split_T_0 s = takeWhile (\<lambda>c. c \<noteq> CHR ''T'') s"

subsection \<open>Results, the response and the outside world\<close>

text \<open>
  One result of \<^verbatim>\<open>llm_benchmark.run\<close>, with the keys that \<^verbatim>\<open>_format_response\<close> reads. The
  floats are of an abstract type \<open>'f\<close>.
\<close>

record 'f bench_result =
  model :: string
  ttr :: 'f
  ttft :: 'f
  tps :: 'f
  num_tokens :: int
  total_time :: 'f
  "output" :: string

text \<open>The dataclass \<^verbatim>\<open>_Response\<close>.\<close>

record 'f response =
  time :: string
  region :: string
  cmd :: string
  results :: "'f bench_result list"

text \<open>How a task ends: it returns a result or \<^verbatim>\<open>None\<close>, or it raises.\<close>

datatype 'r outcome = Returned "'r option" | Raised

type_synonym blob = "string \<times> string \<times> string \<times> string"

text \<open>
  \<open>benchmark w i argv\<close> is how the \<open>i\<close>-th task of the run, \<^verbatim>\<open>llm_benchmark.run(argv)\<close>, ends;
  \<open>fmt_float w width prec x\<close> is \<^verbatim>\<open>f"{x:width.precf}"\<close>; \<open>upload w b\<close> tells whether
  \<^verbatim>\<open>_store_response\<close> returns for the blob \<open>b\<close> (bucket, key, text, content type) or raises.
\<close>

record 'f world =
  environ :: environ
  now :: datetime
  benchmark :: "nat \<Rightarrow> string list \<Rightarrow> 'f bench_result outcome"
  json_dumps :: "'f response \<Rightarrow> string"
  fmt_float :: "nat \<Rightarrow> nat \<Rightarrow> 'f \<Rightarrow> string"
  upload :: "blob \<Rightarrow> bool"

subsection \<open>\<^verbatim>\<open>_format_response\<close>\<close>

text \<open>
  The local variable \<^verbatim>\<open>output\<close> of the loop and the last field of a row,
  \<^verbatim>\<open>f"{output:{dlen}.{dlen}}"\<close>.
\<close>

definition row_output :: "'f bench_result \<Rightarrow> string" where
  "row_output r = strip (replace_newlines (output r))"

definition output_field :: "nat \<Rightarrow> 'f bench_result \<Rightarrow> string" where
  "output_field dlen r = fmt_str CHR '' '' dlen dlen (row_output r)"

definition table_row :: "'f world \<Rightarrow> nat \<Rightarrow> 'f bench_result \<Rightarrow> string" where
  "table_row w dlen r =
     ''| '' @ ljust 42 (model r) @ '' | '' @ fmt_float w 4 2 (ttr r) @ '' | ''
       @ fmt_float w 4 2 (ttft r) @ '' | '' @ fmt_float w 3 0 (tps r) @ '' | ''
       @ rjust CHR '' '' 3 (str_int (num_tokens r)) @ '' | '' @ fmt_float w 5 2 (total_time r)
       @ '' | '' @ output_field dlen r @ '' |\<newline>''"

definition table_header :: "nat \<Rightarrow> string" where
  "table_header dlen =
     ''| Provider/Model                             | TTR  | TTFT | TPS | Tok | Total |''
       @ '' '' @ fmt_str CHR '' '' dlen dlen ''Response'' @ '' |\<newline>''
       @ ''| :----------------------------------------- | ---: | ---: | --: | --: | ----: |''
       @ '' '' @ fmt_str CHR ''-'' dlen dlen '':--'' @ '' |\<newline>''"

text \<open>
  A negative \<open>dlen\<close> makes the format specification of the header invalid, and Python
  raises \<^verbatim>\<open>ValueError\<close> there.
\<close>

definition format_response ::
  "'f world \<Rightarrow> 'f response \<Rightarrow> string \<Rightarrow> int \<Rightarrow> error + string \<times> string" where
  "format_response w response fmt dlen =
     (if fmt = ''json'' then Inr (json_dumps w response, ''application/json'')
      else if dlen < 0 then Inl FormatSpecError
      else
        (let s = table_header (nat dlen);
             s = s @ concat (map (table_row w (nat dlen)) (results response));
             s = s @ ''\<newline>time: '' @ time response @ '', region: '' @ region response
                   @ '', cmd: '' @ cmd response @ ''\<newline>''
         in Inr (s, ''text/markdown'')))"

subsection \<open>\<^verbatim>\<open>run\<close>\<close>

definition DEFAULT_GCS_BUCKET :: string where
  "DEFAULT_GCS_BUCKET = ''thefastest-data''"

text \<open>
  \<^verbatim>\<open>await asyncio.gather(*tasks)\<close> returns when every task has returned, and raises when a
  task has raised (which exception comes first depends on the timing, so that the error
  carries none). After it, \<^verbatim>\<open>t.result()\<close> is the value the task returned.
\<close>

fun gather :: "'r outcome list \<Rightarrow> error + 'r option list" where
  "gather [] = Inr []"
| "gather (Raised # ts) = Inl InvocationRaised"
| "gather (Returned v # ts) = (case gather ts of Inl e \<Rightarrow> Inl e | Inr vs \<Rightarrow> Inr (v # vs))"

text \<open>\<^verbatim>\<open>[t.result() for t in tasks if t.result() is not None]\<close>\<close>

definition collect_results :: "'r option list \<Rightarrow> 'r list" where
  "collect_results vals = map the (filter (\<lambda>v. v \<noteq> None) vals)"

text \<open>
  What a run does to the outside and what it returns: the command lines of the tasks it
  created, in the order of their creation, the blobs it sent to \<^verbatim>\<open>_store_response\<close>, and
  its value, the pair of a text and a content type, or the exception it raised.
\<close>

record run_out =
  dispatched :: "string list list"
  stored :: "blob list"
  returned :: "error + string \<times> string"

text \<open>The loop of \<^verbatim>\<open>run\<close>: each model is resolved by \<^verbatim>\<open>apply\<close> and its task created.\<close>

definition invocations :: "llm list \<Rightarrow> string list \<Rightarrow> pydict \<Rightarrow> string list list" where
  "invocations models pargv kwargs = map (\<lambda>m. full_argv (Llm_apply m pargv kwargs)) models"

definition tasks :: "'f world \<Rightarrow> string list list \<Rightarrow> 'f bench_result outcome list" where
  "tasks w invs = map (\<lambda>(i, a). benchmark w i a) (enumerate 0 invs)"

text \<open>
  The local variables of \<^verbatim>\<open>run\<close>: \<^verbatim>\<open>region\<close> is \<^verbatim>\<open>os.getenv("FLY_REGION", "local")\<close>,
  \<^verbatim>\<open>pass_argv or []\<close> is the empty list for \<^verbatim>\<open>None\<close>, \<^verbatim>\<open>response\<close> is built from the values
  \<open>vals\<close> of the tasks, and \<^verbatim>\<open>path\<close> is the key of the stored blob.
\<close>

definition region_of :: "'f world \<Rightarrow> string" where
  "region_of w = (case environ w ''FLY_REGION'' of None \<Rightarrow> ''local'' | Some s \<Rightarrow> s)"

definition or_empty :: "string list option \<Rightarrow> string list" where
  "or_empty pargv = (case pargv of None \<Rightarrow> [] | Some a \<Rightarrow> a)"

definition make_response ::
  "'f world \<Rightarrow> string list option \<Rightarrow> pydict \<Rightarrow> 'f bench_result option list \<Rightarrow> 'f response" where
  "make_response w pargv kwargs vals =
     (let time_str = isoformat (now w);
          region = region_of w;
          argv = dict_to_argv kwargs @ or_empty pargv;
          results = collect_results vals
      in \<lparr>time = time_str, region = region, cmd = str_join '' '' argv, results = results\<rparr>)"

definition store_path :: "'f world \<Rightarrow> string \<Rightarrow> string" where
  "store_path w mode =
     region_of w @ ''/'' @ mode @ ''/'' @ split_T_0 (isoformat (now w)) @ ''.json''"

definition run ::
  "'f world \<Rightarrow> string \<Rightarrow> string \<Rightarrow> int \<Rightarrow> string option \<Rightarrow> bool \<Rightarrow> string list option
     \<Rightarrow> pydict \<Rightarrow> run_out" where
  "run w mode fmt display_length flt store pargv kwargs =
     (case get_models (environ w) mode flt of
        Inl e \<Rightarrow> \<lparr>dispatched = [], stored = [], returned = Inl e\<rparr>
      | Inr models \<Rightarrow>
         (let invs = invocations models (or_empty pargv) kwargs in
          case gather (tasks w invs) of
            Inl e \<Rightarrow> \<lparr>dispatched = invs, stored = [], returned = Inl e\<rparr>
          | Inr vals \<Rightarrow>
             (let response = make_response w pargv kwargs vals in
              if store then
                (let path = store_path w mode in
                 case format_response w response ''json'' display_length of
                   Inl e \<Rightarrow> \<lparr>dispatched = invs, stored = [], returned = Inl e\<rparr>
                 | Inr (json, content_type) \<Rightarrow>
                    (let b = (DEFAULT_GCS_BUCKET, path, json, content_type) in
                     if upload w b
                     then \<lparr>dispatched = invs, stored = [b],
                           returned = format_response w response fmt display_length\<rparr>
                     else \<lparr>dispatched = invs, stored = [b], returned = Inl UploadFailed\<rparr>))
              else \<lparr>dispatched = invs, stored = [],
                    returned = format_response w response fmt display_length\<rparr>)))"

subsection \<open>Objects in a store\<close>

text \<open>
  \<^verbatim>\<open>apply\<close> on an object of a store: the method assigns to the attributes of the object
  at the address \<open>self\<close> and returns this address (\<^verbatim>\<open>return self\<close>).
\<close>

type_synonym store = "nat \<Rightarrow> llm"

definition apply_at :: "store \<Rightarrow> nat \<Rightarrow> string list \<Rightarrow> pydict \<Rightarrow> store \<times> nat" where
  "apply_at h self pargv kwargs = (h(self := Llm_apply (h self) pargv kwargs), self)"

subsection \<open>A world of stubs\<close>

text \<open>
  A world for running the definitions on concrete inputs: no environment variable is set,
  the \<open>i\<close>-th task ends as \<open>ends i\<close> says, the structured rendering lists the models of the
  results, and the upload returns.
\<close>

definition stub_result :: "string \<Rightarrow> unit bench_result" where
  "stub_result name =
     \<lparr>model = name, ttr = (), ttft = (), tps = (), num_tokens = 50, total_time = (),
      output = ''line1\<newline>line2''\<rparr>"

definition stub_world :: "(nat \<Rightarrow> unit bench_result outcome) \<Rightarrow> unit world" where
  "stub_world ends =
     \<lparr>environ = (\<lambda>name. None),
      now = \<lparr>year = 2024, month = 5, day = 1, hour = 10, minute = 0, second = 7,
              microsecond = 12\<rparr>,
      benchmark = (\<lambda>i argv. ends i),
      json_dumps = (\<lambda>r. str_join '','' (map model (results r))),
      fmt_float = (\<lambda>width prec x. ''0.00''),
      upload = (\<lambda>b. True)\<rparr>"

text \<open>
  Tasks of which the second raises or returns \<^verbatim>\<open>None\<close>, tasks that all return \<^verbatim>\<open>None\<close>, tasks
  that all raise, and a store that holds one roster entry.
\<close>

definition second_raises :: "nat \<Rightarrow> unit bench_result outcome" where
  "second_raises i = (if i = 1 then Raised else Returned (Some (stub_result (str_nat i))))"

definition second_absent :: "nat \<Rightarrow> unit bench_result outcome" where
  "second_absent i = (if i = 1 then Returned None else Returned (Some (stub_result (str_nat i))))"

definition all_absent :: "nat \<Rightarrow> unit bench_result outcome" where
  "all_absent i = Returned None"

definition all_raise :: "nat \<Rightarrow> unit bench_result outcome" where
  "all_raise i = Raised"

definition stub_store :: store where
  "stub_store = (\<lambda>a. Llm ''gemini-1.5-pro-preview-0409'' [])"

section \<open>Properties\<close>

subsection \<open>Dictionaries\<close>

lemma map_of_dict_set: "map_of (dict_set k v d) = (map_of d)(k \<mapsto> v)"
  by (induction d) (auto simp: fun_eq_iff)

lemma map_of_dict_update: "map_of (dict_update d kw) = map_of d ++ map_of (rev kw)"
  by (induction d kw rule: dict_update.induct)
     (auto simp: map_of_dict_set fun_eq_iff map_add_def split: option.splits)

subsection \<open>The model registry\<close>

text \<open>Every entry of a roster carries its model identifier, a string.\<close>

lemma model_id_Llm: "''model'' \<notin> fst ` set kw \<Longrightarrow> model_id (Llm name kw) = Some name"
  by (simp add: model_id_def Llm_def map_of_dict_set map_of_dict_update map_add_def
      map_of_eq_None_iff[THEN iffD2] split: option.splits)

lemma model_id_subclasses:
  "model_id (AnyscaleLlm env name) = Some name"
  "model_id (FireworksLlm env name) = Some name"
  "model_id (GroqLlm env name) = Some name"
  "model_id (OctoLlm env name) = Some name"
  "model_id (PerplexityLlm env name) = Some name"
  "model_id (TogetherLlm env name) = Some name"
  by (simp_all add: AnyscaleLlm_def FireworksLlm_def GroqLlm_def OctoLlm_def PerplexityLlm_def
      TogetherLlm_def model_id_Llm)

lemma text_models_ids: "list_all (\<lambda>m. model_id m \<noteq> None) (text_models env)"
  by (simp add: text_models_def Let_def model_id_Llm model_id_subclasses)

lemma image_models_ids: "list_all (\<lambda>m. model_id m \<noteq> None) image_models"
  by (simp add: image_models_def model_id_Llm)

lemma av_models_ids: "list_all (\<lambda>m. model_id m \<noteq> None) av_models"
  by (simp add: av_models_def model_id_Llm)

lemma mode_map_ids:
  "mode_map env mode = Some roster \<Longrightarrow> list_all (\<lambda>m. model_id m \<noteq> None) roster"
  using text_models_ids image_models_ids av_models_ids
  by (auto simp: mode_map_def split: if_splits)

lemma mode_map_None: "mode_map env mode = None \<longleftrightarrow> mode \<notin> {''text'', ''image'', ''audio'', ''video''}"
  by (simp add: mode_map_def)

text \<open>The test \<^verbatim>\<open>in\<close> on strings is the substring test.\<close>

lemma str_contains_iff: "str_contains f s \<longleftrightarrow> (\<exists>p q. s = p @ f @ q)"
proof (induction s)
  case Nil show ?case by auto
next
  case (Cons c s)
  have "sublist f (c # s) \<longleftrightarrow> prefix f (c # s) \<or> sublist f s" by (rule sublist_Cons_right)
  with Cons show ?case by (simp add: sublist_def)
qed

lemma model_contains_id: "model_id m = Some s \<Longrightarrow> model_contains f m = Inr (str_contains f s)"
  by (auto simp: model_id_def model_contains_def split: option.splits pyval.splits)

lemma select_models_all:
  "flt = None \<or> flt = Some [] \<Longrightarrow> select_models flt ms = Inr ms"
  by (induction ms) auto

lemma select_models_filter:
  assumes "list_all (\<lambda>m. model_id m \<noteq> None) ms" and "f \<noteq> []"
  shows "select_models (Some f) ms =
           Inr (filter (\<lambda>m. \<exists>s. model_id m = Some s \<and> str_contains f s) ms)"
  using assms by (induction ms) (auto simp: model_contains_id)


lemma run_unknown_mode:
  "mode_map (environ w) mode = None \<Longrightarrow>
     run w mode fmt dlen flt store pargv kwargs =
       \<lparr>dispatched = [], stored = [], returned = Inl (UnknownMode mode)\<rparr>"
  by (simp add: run_def get_models_def Let_def)

lemma get_models_valid:
  assumes "mode_map env mode = Some roster"
  shows "get_models env mode flt =
           Inr (if flt = None \<or> flt = Some [] then roster
                else filter (\<lambda>m. \<exists>s. model_id m = Some s \<and> str_contains (the flt) s) roster)"
proof (cases "flt = None \<or> flt = Some []")
  case True
  then show ?thesis using assms by (simp add: get_models_def select_models_all)
next
  case False
  then obtain f where f: "flt = Some f" "f \<noteq> []" by auto
  from mode_map_ids[OF assms] f show ?thesis
    using assms by (simp add: get_models_def select_models_filter)
qed

text \<open>
  Claim C4. \<^verbatim>\<open>_get_models\<close> raises the unknown-mode error exactly when the mode is none of
  \<^verbatim>\<open>text\<close>, \<^verbatim>\<open>image\<close>, \<^verbatim>\<open>audio\<close> and \<^verbatim>\<open>video\<close>: for any other mode it raises, and then
  \<^verbatim>\<open>run\<close> raises the same error having created no task and stored nothing; for each of
  the four modes it returns a roster and raises no error of any kind.
\<close>

theorem get_models_unknown_mode_iff:
  "(mode \<notin> {''text'', ''image'', ''audio'', ''video''} \<longrightarrow>
      get_models env mode flt = Inl (UnknownMode mode) \<and>
      run w mode fmt dlen flt store pargv kwargs =
        \<lparr>dispatched = [], stored = [], returned = Inl (UnknownMode mode)\<rparr>) \<and>
   (mode \<in> {''text'', ''image'', ''audio'', ''video''} \<longrightarrow>
      (\<exists>ms. get_models env mode flt = Inr ms))"
proof (intro conjI impI)
  assume "mode \<notin> {''text'', ''image'', ''audio'', ''video''}"
  then have n: "\<And>e. mode_map e mode = None" by (simp add: mode_map_None)
  from n show "get_models env mode flt = Inl (UnknownMode mode)" by (simp add: get_models_def)
  from n show "run w mode fmt dlen flt store pargv kwargs =
      \<lparr>dispatched = [], stored = [], returned = Inl (UnknownMode mode)\<rparr>"
    by (rule run_unknown_mode)
next
  assume "mode \<in> {''text'', ''image'', ''audio'', ''video''}"
  then obtain roster where "mode_map env mode = Some roster"
    using mode_map_None[of env mode] by auto
  then show "\<exists>ms. get_models env mode flt = Inr ms" by (simp add: get_models_valid)
qed

theorem get_models_unknown_mode_iff_witness:
  "get_models (\<lambda>name. None) ''speech'' None = Inl (UnknownMode ''speech'') \<and>
   run (stub_world (\<lambda>i. Raised)) ''speech'' ''text'' 64 None True None [] =
     \<lparr>dispatched = [], stored = [], returned = Inl (UnknownMode ''speech'')\<rparr> \<and>
   (\<exists>ms. get_models (\<lambda>name. None) ''audio'' None = Inr ms)"
  using get_models_unknown_mode_iff [of "''speech''" "\<lambda>name. None" None "stub_world (\<lambda>i. Raised)"
      "''text''" 64 True None "[]"]
    get_models_unknown_mode_iff [of "''audio''" "\<lambda>name. None" None]
  by simp

text \<open>
  Claim C5. For each of the four modes and every non-empty filter, \<^verbatim>\<open>_get_models\<close> returns
  the entries of the roster of the mode whose model identifier contains the filter as a
  contiguous piece, character for character (so upper and lower case differ), in the
  order of the roster. The result is a value (possibly the empty list), never an error,
  and it is a function of the mode, the filter and the environment alone.
\<close>

theorem get_models_substring_filter:
  assumes "mode \<in> {''text'', ''image'', ''audio'', ''video''}" and "flt \<noteq> []"
  shows "\<exists>roster. mode_map env mode = Some roster \<and>
           (\<forall>m \<in> set roster. model_id m \<noteq> None) \<and>
           get_models env mode (Some flt) =
             Inr (filter (\<lambda>m. \<exists>s p q. model_id m = Some s \<and> s = p @ flt @ q) roster)"
proof -
  from assms(1) obtain roster where r: "mode_map env mode = Some roster"
    using mode_map_None[of env mode] by auto
  from mode_map_ids[OF r] have "\<forall>m \<in> set roster. model_id m \<noteq> None"
    by (simp add: list_all_iff)
  moreover from r assms(2) have "get_models env mode (Some flt) =
      Inr (filter (\<lambda>m. \<exists>s p q. model_id m = Some s \<and> s = p @ flt @ q) roster)"
    by (simp add: get_models_valid str_contains_iff)
  ultimately show ?thesis using r by blast
qed

lemma image_vi:
  "get_models env ''image'' (Some ''vi'') =
     Inr [Llm ''gpt-4-vision-preview'' [(''base_url'', PyStr ''https://fixie-westus.openai.azure.com'')],
          Llm ''gemini-pro-vision'' [],
          Llm ''gemini-1.5-pro-preview-0409'' []]"
  by (simp add: get_models_def mode_map_def image_models_def Llm_def model_contains_def)

theorem get_models_substring_filter_witness:
  "''image'' \<in> {''text'', ''image'', ''audio'', ''video''} \<and> ''vi'' \<noteq> [] \<and>
   (\<exists>roster. mode_map (\<lambda>name. None) ''image'' = Some roster \<and>
      (\<forall>m \<in> set roster. model_id m \<noteq> None) \<and>
      get_models (\<lambda>name. None) ''image'' (Some ''vi'') =
        Inr (filter (\<lambda>m. \<exists>s p q. model_id m = Some s \<and> s = p @ ''vi'' @ q) roster)) \<and>
   get_models (\<lambda>name. None) ''image'' (Some ''vi'') =
     Inr [Llm ''gpt-4-vision-preview''
            [(''base_url'', PyStr ''https://fixie-westus.openai.azure.com'')],
          Llm ''gemini-pro-vision'' [],
          Llm ''gemini-1.5-pro-preview-0409'' []]"
proof -
  have m: "''image'' \<in> {''text'', ''image'', ''audio'', ''video''}" and f: "''vi'' \<noteq> []"
    by simp_all
  show ?thesis
    using m f get_models_substring_filter [OF m f, of "\<lambda>name. None"] image_vi
    by blast
qed

text \<open>
  Claim C9. For every filter the roster of the mode \<^verbatim>\<open>audio\<close> is the roster of the mode
  \<^verbatim>\<open>video\<close>, entry for entry: both modes are mapped to the one table \<^verbatim>\<open>_av_models\<close>, which
  has a single entry.
\<close>

theorem av_modes_agree:
  "get_models env ''audio'' flt = get_models env ''video'' flt \<and>
   mode_map env ''audio'' = Some av_models \<and> mode_map env ''video'' = Some av_models \<and>
   av_models = [Llm ''gemini-1.5-pro-preview-0409'' []]"
  by (simp add: get_models_def mode_map_def av_models_def)

text \<open>
  Claim C10. Under a non-empty filter no entry whose model identifier is the empty string
  is in the roster that \<^verbatim>\<open>_get_models\<close> returns: the empty string contains no non-empty
  string. The roster of the mode \<^verbatim>\<open>text\<close> has such entries.
\<close>

theorem empty_id_filtered_out:
  assumes "mode \<in> {''text'', ''image'', ''audio'', ''video''}" and "flt \<noteq> []"
  shows "\<exists>roster ms. mode_map env mode = Some roster \<and> get_models env mode (Some flt) = Inr ms \<and>
           (\<forall>m \<in> set roster. model_id m = Some [] \<longrightarrow> m \<notin> set ms)"
proof -
  from assms(1) obtain roster where r: "mode_map env mode = Some roster"
    using mode_map_None[of env mode] by auto
  let ?ms = "filter (\<lambda>m. \<exists>s. model_id m = Some s \<and> str_contains flt s) roster"
  from r assms(2) have "get_models env mode (Some flt) = Inr ?ms"
    by (simp add: get_models_valid)
  moreover have "\<forall>m \<in> set roster. model_id m = Some [] \<longrightarrow> m \<notin> set ?ms"
    using assms(2) by auto
  ultimately show ?thesis using r by blast
qed

theorem empty_id_filtered_out_witness:
  "''text'' \<in> {''text'', ''image'', ''audio'', ''video''} \<and> ''llama'' \<noteq> [] \<and>
   (\<exists>roster ms. mode_map (\<lambda>name. None) ''text'' = Some roster \<and>
      get_models (\<lambda>name. None) ''text'' (Some ''llama'') = Inr ms \<and>
      (\<forall>m \<in> set roster. model_id m = Some [] \<longrightarrow> m \<notin> set ms)) \<and>
   (\<exists>m \<in> set (text_models (\<lambda>name. None)). model_id m = Some [])"
proof -
  have m: "''text'' \<in> {''text'', ''image'', ''audio'', ''video''}" and f: "''llama'' \<noteq> []"
    by simp_all
  have e: "\<exists>m \<in> set (text_models (\<lambda>name. None)). model_id m = Some []"
    by (simp add: text_models_def Let_def model_id_Llm model_id_subclasses)
  show ?thesis
    using m f e empty_id_filtered_out [OF m f, of "\<lambda>name. None"]
    by blast
qed

subsection \<open>The configuration builder\<close>

text \<open>The keys of a dictionary stay distinct, and \<^verbatim>\<open>update\<close> lets the new items win.\<close>

lemma keys_dict_set:
  "map fst (dict_set k v d) = (if k \<in> fst ` set d then map fst d else map fst d @ [k])"
  by (induction d) (auto simp: rev_image_eqI)

lemma distinct_dict_set: "distinct (map fst d) \<Longrightarrow> distinct (map fst (dict_set k v d))"
  by (simp add: keys_dict_set)

lemma distinct_dict_update: "distinct (map fst d) \<Longrightarrow> distinct (map fst (dict_update d kw))"
  by (induction d kw rule: dict_update.induct) (simp_all add: distinct_dict_set)

lemma keys_set_dict_set: "fst ` set (dict_set k v d) = insert k (fst ` set d)"
proof -
  have "set (map fst (dict_set k v d)) = insert k (set (map fst d))"
    unfolding keys_dict_set by auto
  then show ?thesis by simp
qed

lemma keys_dict_update:
  "distinct (map fst kw) \<Longrightarrow>
     map fst (dict_update d kw) = map fst d @ filter (\<lambda>k. k \<notin> fst ` set d) (map fst kw)"
proof (induction kw arbitrary: d)
  case Nil
  show ?case by simp
next
  case (Cons p kw)
  obtain k v where p: "p = (k, v)" by (cases p)
  from Cons.prems p have k: "k \<notin> fst ` set kw" and d: "distinct (map fst kw)" by auto
  from k have f: "filter (\<lambda>k'. k' \<notin> insert k (fst ` set d)) (map fst kw) =
      filter (\<lambda>k'. k' \<notin> fst ` set d) (map fst kw)"
    by (intro filter_cong) auto
  show ?case
    using Cons.IH[OF d, of "dict_set k v d"] p f
    by (simp add: keys_dict_set keys_set_dict_set)
qed

lemma items_dict_update:
  assumes "distinct (map fst d)" and "distinct (map fst kw)"
  shows "set (dict_update d kw) = set kw \<union> {(k, v). (k, v) \<in> set d \<and> k \<notin> fst ` set kw}"
proof -
  have r: "distinct (map fst (rev kw))" using assms(2) by (simp add: rev_map[symmetric])
  have "(k, v) \<in> set (dict_update d kw) \<longleftrightarrow>
          (k, v) \<in> set kw \<or> (k, v) \<in> set d \<and> k \<notin> fst ` set kw" for k v
  proof -
    have "(k, v) \<in> set (dict_update d kw) \<longleftrightarrow> map_of (dict_update d kw) k = Some v"
      using distinct_dict_update[OF assms(1)] by simp
    also have "\<dots> \<longleftrightarrow> (map_of d ++ map_of (rev kw)) k = Some v"
      by (simp add: map_of_dict_update)
    also have "\<dots> \<longleftrightarrow> (k, v) \<in> set kw \<or> (k, v) \<in> set d \<and> k \<notin> fst ` set kw"
      using r assms(1) by (auto simp: map_add_Some_iff map_of_eq_None_iff)
    finally show ?thesis .
  qed
  then show ?thesis by auto
qed

text \<open>
  Claim C1, as the code has it. \<^verbatim>\<open>apply\<close> stores the shared options over the options of
  the target: the items of the resolved argument map are the shared options and those
  options of the target that no shared option names, so that a shared \<^verbatim>\<open>api_key\<close> or
  \<^verbatim>\<open>base_url\<close> replaces the one of the target. The names of the target keep their
  places and the new names of the shared options follow them. The command line is the
  rendering of this map followed by the pass-through tokens, which therefore stand after
  every option.
\<close>

theorem apply_shared_over_target:
  assumes "distinct (map fst (args m))" and "distinct (map fst kwargs)"
  shows "set (args (Llm_apply m pargv kwargs)) =
           set kwargs \<union> {(k, v). (k, v) \<in> set (args m) \<and> k \<notin> fst ` set kwargs} \<and>
         distinct (map fst (args (Llm_apply m pargv kwargs))) \<and>
         map fst (args (Llm_apply m pargv kwargs)) =
           map fst (args m) @ filter (\<lambda>k. k \<notin> fst ` set (args m)) (map fst kwargs) \<and>
         full_argv (Llm_apply m pargv kwargs) =
           dict_to_argv (args (Llm_apply m pargv kwargs)) @ pargv"
proof -
  have "args (Llm_apply m pargv kwargs) = dict_update (args m) kwargs"
    and "pass_argv (Llm_apply m pargv kwargs) = pargv"
    by (simp_all add: Llm_apply_def)
  then show ?thesis
    using items_dict_update[OF assms] distinct_dict_update[OF assms(1), of kwargs]
      keys_dict_update[OF assms(2), of "args m"]
    by (simp only: full_argv_def)
qed

theorem apply_shared_over_target_witness:
  "distinct (map fst (args (Llm ''gpt-4-vision-preview''
       [(''base_url'', PyStr ''https://fixie-westus.openai.azure.com'')]))) \<and>
   distinct (map fst [(''base_url'', PyStr ''http://localhost'')]) \<and>
   set (args (Llm_apply (Llm ''gpt-4-vision-preview''
       [(''base_url'', PyStr ''https://fixie-westus.openai.azure.com'')]) [''--max-tokens=5'']
       [(''base_url'', PyStr ''http://localhost'')])) =
     {(''base_url'', PyStr ''http://localhost''), (''model'', PyStr ''gpt-4-vision-preview''),
      (''format'', PyStr ''none'')} \<and>
   map fst (args (Llm_apply (Llm ''gpt-4-vision-preview''
       [(''base_url'', PyStr ''https://fixie-westus.openai.azure.com'')]) [''--max-tokens=5'']
       [(''base_url'', PyStr ''http://localhost'')])) = [''model'', ''base_url'', ''format'']"
  using apply_shared_over_target [of "Llm ''gpt-4-vision-preview''
       [(''base_url'', PyStr ''https://fixie-westus.openai.azure.com'')]"
       "[(''base_url'', PyStr ''http://localhost'')]" "[''--max-tokens=5'']"]
  by (auto simp: Llm_def)

text \<open>
  Claim C1 as stated fails: the second entry of the image roster has its own \<^verbatim>\<open>base_url\<close>,
  and with a shared option \<^verbatim>\<open>base_url\<close> the command line carries the shared value and not
  the one of the target.
\<close>

theorem shared_base_url_replaces_target:
  "Llm ''gpt-4-vision-preview'' [(''base_url'', PyStr ''https://fixie-westus.openai.azure.com'')]
     \<in> set image_models \<and>
   full_argv (Llm_apply
       (Llm ''gpt-4-vision-preview''
          [(''base_url'', PyStr ''https://fixie-westus.openai.azure.com'')])
       [''--max-tokens=5''] [(''base_url'', PyStr ''http://localhost'')]) =
     [''--model=gpt-4-vision-preview'', ''--base-url=http://localhost'', ''--format=none'',
      ''--max-tokens=5'']"
  by (simp add: image_models_def Llm_def Llm_apply_def full_argv_def dict_to_argv_def dashes_def)

text \<open>
  Claim C8, as the code has it. \<^verbatim>\<open>apply\<close> returns the entry it was called on, whose
  argument map has taken the shared options and whose pass-through list is the new one;
  no other object of the store changes.
\<close>

theorem apply_at_in_place:
  "snd (apply_at h self pargv kwargs) = self \<and>
   fst (apply_at h self pargv kwargs) self =
     \<lparr>args = dict_update (args (h self)) kwargs, pass_argv = pargv\<rparr> \<and>
   (\<forall>a. a \<noteq> self \<longrightarrow> fst (apply_at h self pargv kwargs) a = h a)"
  by (simp add: apply_at_def Llm_apply_def)

theorem apply_at_in_place_witness:
  "snd (apply_at stub_store 0 [''--max-tokens=5''] []) = 0 \<and>
   fst (apply_at stub_store 0 [''--max-tokens=5''] []) 0 =
     \<lparr>args = [(''model'', PyStr ''gemini-1.5-pro-preview-0409''), (''format'', PyStr ''none'')],
      pass_argv = [''--max-tokens=5'']\<rparr> \<and>
   fst (apply_at stub_store 0 [''--max-tokens=5''] []) 1 = stub_store 1"
  using apply_at_in_place [of stub_store 0 "[''--max-tokens=5'']" "[]"]
  by (simp add: stub_store_def Llm_def)

text \<open>
  Claim C8 as stated fails: after \<^verbatim>\<open>apply\<close> the entry at the address is not what it was,
  and the address returned is the one of the entry, not of a new object.
\<close>

theorem apply_at_changes_entry:
  "snd (apply_at stub_store 0 [''--max-tokens=5''] [(''base_url'', PyStr ''http://localhost'')]) = 0 \<and>
   fst (apply_at stub_store 0 [''--max-tokens=5''] [(''base_url'', PyStr ''http://localhost'')]) 0
     \<noteq> stub_store 0 \<and>
   args (stub_store 0) = [(''model'', PyStr ''gemini-1.5-pro-preview-0409''), (''format'', PyStr ''none'')] \<and>
   pass_argv (stub_store 0) = [] \<and>
   args (fst (apply_at stub_store 0 [''--max-tokens=5''] [(''base_url'', PyStr ''http://localhost'')]) 0)
     = [(''model'', PyStr ''gemini-1.5-pro-preview-0409''), (''format'', PyStr ''none''),
        (''base_url'', PyStr ''http://localhost'')] \<and>
   pass_argv (fst (apply_at stub_store 0 [''--max-tokens=5''] [(''base_url'', PyStr ''http://localhost'')]) 0)
     = [''--max-tokens=5'']"
  by (simp add: apply_at_def stub_store_def Llm_def Llm_apply_def)

subsection \<open>The report formatter\<close>









subsection \<open>The run\<close>

text \<open>The join returns the values of the tasks when none has raised, and raises otherwise.\<close>

lemma gather_Returned: "gather (map Returned vals) = Inr vals"
  by (induction vals) auto

lemma gather_Raised: "Raised \<in> set ts \<Longrightarrow> gather ts = Inl InvocationRaised"
proof (induction ts)
  case Nil
  then show ?case by simp
next
  case (Cons t ts)
  then show ?case by (cases t) (auto split: sum.splits)
qed

lemma tasks_nth:
  "tasks w invs = map (\<lambda>i. benchmark w i (invs ! i)) [0..<length invs]"
  by (rule nth_equalityI) (simp_all add: tasks_def enumerate_eq_zip)

lemma length_tasks: "length (tasks w invs) = length invs"
  by (simp add: tasks_def)

lemma length_invocations: "length (invocations ms pargv kwargs) = length ms"
  by (simp add: invocations_def)

lemma format_json: "format_response w resp ''json'' dlen = Inr (json_dumps w resp, ''application/json'')"
  by (simp add: format_response_def)

lemma run_raised:
  assumes "get_models (environ w) mode flt = Inr ms"
    and "gather (tasks w (invocations ms (or_empty pargv) kwargs)) = Inl e"
  shows "run w mode fmt dlen flt store pargv kwargs =
           \<lparr>dispatched = invocations ms (or_empty pargv) kwargs, stored = [], returned = Inl e\<rparr>"
  using assms by (simp add: run_def Let_def)

lemma run_joined:
  assumes "get_models (environ w) mode flt = Inr ms"
    and "gather (tasks w (invocations ms (or_empty pargv) kwargs)) = Inr vals"
  shows "run w mode fmt dlen flt store pargv kwargs =
           (let resp = make_response w pargv kwargs vals;
                b = (DEFAULT_GCS_BUCKET, store_path w mode, json_dumps w resp, ''application/json'')
            in \<lparr>dispatched = invocations ms (or_empty pargv) kwargs,
                stored = (if store then [b] else []),
                returned = (if store \<and> \<not> upload w b then Inl UploadFailed
                            else format_response w resp fmt dlen)\<rparr>)"
  using assms by (simp add: run_def Let_def format_json)

lemma run_joined_tasks:
  assumes "get_models (environ w) mode flt = Inr ms"
    and "tasks w (invocations ms (or_empty pargv) kwargs) = map Returned vals"
  shows "run w mode fmt dlen flt store pargv kwargs =
           (let resp = make_response w pargv kwargs vals;
                b = (DEFAULT_GCS_BUCKET, store_path w mode, json_dumps w resp, ''application/json'')
            in \<lparr>dispatched = invocations ms (or_empty pargv) kwargs,
                stored = (if store then [b] else []),
                returned = (if store \<and> \<not> upload w b then Inl UploadFailed
                            else format_response w resp fmt dlen)\<rparr>)"
  using assms(2) by (intro run_joined[OF assms(1)]) (simp add: gather_Returned)

lemma run_outcomes:
  assumes "length vals = length ms"
    and "\<forall>i<length ms. benchmark w i (full_argv (Llm_apply (ms ! i) pass kwargs)) = Returned (vals ! i)"
  shows "tasks w (invocations ms pass kwargs) = map Returned vals"
  using assms by (intro nth_equalityI) (simp_all add: tasks_nth invocations_def)

lemma results_make_response: "results (make_response w pargv kwargs vals) = collect_results vals"
  by (simp add: make_response_def Let_def)

lemma collect_results_Some:
  "map Some (collect_results vals) = filter (\<lambda>v. v \<noteq> None) vals"
  by (induction vals) (auto simp: collect_results_def)

text \<open>The date of the time stamp: digits and hyphens, cut off at the letter T.\<close>

lemma digit_in: "digit n \<in> set ''0123456789''"
  unfolding digit_def by (rule nth_mem) simp

lemma set_str_nat: "set (str_nat n) \<subseteq> set ''0123456789''"
proof (induction n rule: str_nat.induct)
  case (1 n)
  show ?case
  proof (cases "n < 10")
    case True
    then show ?thesis using digit_in[of n] by (subst str_nat.simps) simp
  next
    case False
    with 1 digit_in[of n] show ?thesis by (subst str_nat.simps) simp
  qed
qed

lemma length_str_nat: "0 < k \<Longrightarrow> n < 10 ^ k \<Longrightarrow> length (str_nat n) \<le> k"
proof (induction n arbitrary: k rule: str_nat.induct)
  case (1 n)
  show ?case
  proof (cases "n < 10")
    case True
    then show ?thesis using "1.prems" by (subst str_nat.simps) simp
  next
    case False
    then have k: "1 < k" using "1.prems" by (cases "k = 1") auto
    then obtain j where j: "k = Suc j" "0 < j" by (cases k) auto
    from "1.prems" j have "n div 10 < 10 ^ j" by (simp add: less_mult_imp_div_less mult.commute)
    with "1.IH"[OF False j(2)] have "length (str_nat (n div 10)) \<le> j" by simp
    with False j show ?thesis by (subst str_nat.simps) simp
  qed
qed

lemma set_rjust: "set (rjust c w s) \<subseteq> insert c (set s)"
  by (auto simp: rjust_def)

lemma length_rjust: "length s \<le> w \<Longrightarrow> length (rjust c w s) = w"
  by (simp add: rjust_def)

lemma T_notin_str_nat: "CHR ''T'' \<notin> set (str_nat n)"
  using set_str_nat[of n] by auto

lemma T_notin_rjust: "CHR ''T'' \<notin> set (rjust CHR ''0'' w (str_nat n))"
  using T_notin_str_nat[of n] by (auto simp: rjust_def)

lemma T_notin_isodate: "CHR ''T'' \<notin> set (isodate d)"
  by (simp add: isodate_def T_notin_rjust)

lemma takeWhile_until:
  "c \<notin> set xs \<Longrightarrow> takeWhile (\<lambda>x. x \<noteq> c) (xs @ c # ys) = xs"
  by (induction xs) auto

lemma split_T_0_isoformat: "split_T_0 (isoformat d) = isodate d"
proof -
  have "CHR ''T'' \<notin> set (isodate d)" by (rule T_notin_isodate)
  then show ?thesis
    unfolding split_T_0_def isoformat_def by (simp add: takeWhile_until)
qed

lemma digits_rjust: "set (rjust CHR ''0'' w (str_nat n)) \<subseteq> set ''0123456789''"
proof -
  have "insert CHR ''0'' (set (str_nat n)) \<subseteq> set ''0123456789''"
    using set_str_nat[of n] by simp
  with set_rjust[of "CHR ''0''" w "str_nat n"] show ?thesis by (rule subset_trans)
qed

lemma isodate_shape:
  assumes "year d < 10000" "month d < 100" "day d < 100"
  shows "\<exists>y m dd. isodate d = y @ ''-'' @ m @ ''-'' @ dd \<and> length y = 4 \<and> length m = 2 \<and>
           length dd = 2 \<and> set y \<union> set m \<union> set dd \<subseteq> set ''0123456789''"
proof -
  let ?y = "rjust CHR ''0'' 4 (str_nat (year d))"
  let ?m = "rjust CHR ''0'' 2 (str_nat (month d))"
  let ?d = "rjust CHR ''0'' 2 (str_nat (day d))"
  have "length (str_nat (year d)) \<le> 4" using assms(1) by (intro length_str_nat) simp_all
  then have y: "length ?y = 4" by (rule length_rjust)
  have "length (str_nat (month d)) \<le> 2" using assms(2) by (intro length_str_nat) simp_all
  then have m: "length ?m = 2" by (rule length_rjust)
  have "length (str_nat (day d)) \<le> 2" using assms(3) by (intro length_str_nat) simp_all
  then have dd: "length ?d = 2" by (rule length_rjust)
  have s: "set ?y \<union> set ?m \<union> set ?d \<subseteq> set ''0123456789''"
    using digits_rjust[of 4 "year d"] digits_rjust[of 2 "month d"] digits_rjust[of 2 "day d"]
    by (simp only: Un_subset_iff)
  have "isodate d = ?y @ ''-'' @ ?m @ ''-'' @ ?d" by (simp add: isodate_def)
  with y m dd s show ?thesis by blast
qed

text \<open>The world of stubs.\<close>

lemma stub_environ: "environ (stub_world ends) = (\<lambda>name. None)"
  by (simp add: stub_world_def)

lemma stub_benchmark: "benchmark (stub_world ends) i argv = ends i"
  by (simp add: stub_world_def)

lemma stub_upload: "upload (stub_world ends) b"
  by (simp add: stub_world_def)

lemma second_absent_vals:
  "\<forall>i<length [a, b, c :: llm]. second_absent i =
     Returned ([Some (stub_result ''0''), None, Some (stub_result ''2'')] ! i)"
proof (intro allI impI)
  fix i assume "i < length [a, b, c]"
  then consider "i = 0" | "i = 1" | "i = 2" by fastforce
  then show "second_absent i =
     Returned ([Some (stub_result ''0''), None, Some (stub_result ''2'')] ! i)"
  proof cases
    case 1 then show ?thesis by (simp add: second_absent_def str_nat.simps digit_def)
  next
    case 2 then show ?thesis by (simp add: second_absent_def)
  next
    case 3 then show ?thesis by (simp add: second_absent_def str_nat.simps digit_def)
  qed
qed

text \<open>What the formatter returns, and a run one of whose tasks has raised.\<close>

lemma format_response_cases:
  "((\<exists>text ct. format_response w resp fmt dlen = Inr (text, ct)) \<longleftrightarrow> fmt = ''json'' \<or> 0 \<le> dlen) \<and>
   (format_response w resp fmt dlen = Inl FormatSpecError \<longleftrightarrow> fmt \<noteq> ''json'' \<and> dlen < 0)"
  by (auto simp: format_response_def Let_def)

lemma raised_task:
  assumes "i < length ms"
    and "benchmark w i (full_argv (Llm_apply (ms ! i) pass kwargs)) = Raised"
  shows "Raised \<in> set (tasks w (invocations ms pass kwargs))"
proof -
  let ?invs = "invocations ms pass kwargs"
  from assms have "tasks w ?invs ! i = Raised" by (simp add: tasks_nth invocations_def)
  moreover from assms(1) have "i < length (tasks w ?invs)"
    by (simp add: length_tasks length_invocations)
  ultimately show ?thesis by (metis nth_mem)
qed

lemma run_task_raised:
  assumes "get_models (environ w) mode flt = Inr ms"
    and "Raised \<in> set (tasks w (invocations ms (or_empty pargv) kwargs))"
  shows "run w mode fmt dlen flt store pargv kwargs =
           \<lparr>dispatched = invocations ms (or_empty pargv) kwargs, stored = [],
            returned = Inl InvocationRaised\<rparr>"
  using assms(1) gather_Raised[OF assms(2)] by (rule run_raised)

text \<open>
  Claim C2, as the code has it. When every task of the roster returns (a result or
  \<^verbatim>\<open>None\<close>), the run passes the join and assembles a report whose results are the results
  that were returned, in the order of the roster. It returns the rendering of this report,
  except that it raises when it was asked to store and the upload raises, and when the
  format is not \<^verbatim>\<open>json\<close> and the display width is negative. When a task raises, the join
  raises: the run has created every task of the roster, but it stores nothing and returns
  no report.
\<close>

theorem run_reports_returned_results:
  "(get_models (environ w) mode flt = Inr ms \<and>
    (\<exists>i<length ms.
       benchmark w i (full_argv (Llm_apply (ms ! i) (or_empty pargv) kwargs)) = Raised) \<longrightarrow>
      run w mode fmt dlen flt store pargv kwargs =
        \<lparr>dispatched = invocations ms (or_empty pargv) kwargs, stored = [],
         returned = Inl InvocationRaised\<rparr>) \<and>
   (get_models (environ w) mode flt = Inr ms \<and> length vals = length ms \<and>
    (\<forall>i<length ms.
       benchmark w i (full_argv (Llm_apply (ms ! i) (or_empty pargv) kwargs)) =
         Returned (vals ! i)) \<longrightarrow>
      run w mode fmt dlen flt store pargv kwargs =
        \<lparr>dispatched = invocations ms (or_empty pargv) kwargs,
         stored =
           (if store
            then [(DEFAULT_GCS_BUCKET, store_path w mode,
                   json_dumps w (make_response w pargv kwargs vals), ''application/json'')]
            else []),
         returned =
           (if store \<and>
               \<not> upload w (DEFAULT_GCS_BUCKET, store_path w mode,
                    json_dumps w (make_response w pargv kwargs vals), ''application/json'')
            then Inl UploadFailed
            else format_response w (make_response w pargv kwargs vals) fmt dlen)\<rparr> \<and>
      results (make_response w pargv kwargs vals) = map the (filter (\<lambda>v. v \<noteq> None) vals) \<and>
      ((\<exists>text ct. format_response w (make_response w pargv kwargs vals) fmt dlen = Inr (text, ct))
         \<longleftrightarrow> fmt = ''json'' \<or> 0 \<le> dlen) \<and>
      (format_response w (make_response w pargv kwargs vals) fmt dlen = Inl FormatSpecError
         \<longleftrightarrow> fmt \<noteq> ''json'' \<and> dlen < 0))"
proof (intro conjI impI; (elim conjE)?)
  assume ms: "get_models (environ w) mode flt = Inr ms"
    and "\<exists>i<length ms.
       benchmark w i (full_argv (Llm_apply (ms ! i) (or_empty pargv) kwargs)) = Raised"
  then obtain i where "i < length ms"
    "benchmark w i (full_argv (Llm_apply (ms ! i) (or_empty pargv) kwargs)) = Raised" by blast
  then have "Raised \<in> set (tasks w (invocations ms (or_empty pargv) kwargs))"
    by (rule raised_task)
  with ms show "run w mode fmt dlen flt store pargv kwargs =
        \<lparr>dispatched = invocations ms (or_empty pargv) kwargs, stored = [],
         returned = Inl InvocationRaised\<rparr>"
    by (rule run_task_raised)
next
  assume ms: "get_models (environ w) mode flt = Inr ms" and l: "length vals = length ms"
    and b: "\<forall>i<length ms.
       benchmark w i (full_argv (Llm_apply (ms ! i) (or_empty pargv) kwargs)) =
         Returned (vals ! i)"
  from l b have "tasks w (invocations ms (or_empty pargv) kwargs) = map Returned vals"
    by (rule run_outcomes)
  from run_joined_tasks[OF ms this, of fmt dlen store]
  show "run w mode fmt dlen flt store pargv kwargs =
        \<lparr>dispatched = invocations ms (or_empty pargv) kwargs,
         stored =
           (if store
            then [(DEFAULT_GCS_BUCKET, store_path w mode,
                   json_dumps w (make_response w pargv kwargs vals), ''application/json'')]
            else []),
         returned =
           (if store \<and>
               \<not> upload w (DEFAULT_GCS_BUCKET, store_path w mode,
                    json_dumps w (make_response w pargv kwargs vals), ''application/json'')
            then Inl UploadFailed
            else format_response w (make_response w pargv kwargs vals) fmt dlen)\<rparr>"
    by (simp add: Let_def)
  show "results (make_response w pargv kwargs vals) = map the (filter (\<lambda>v. v \<noteq> None) vals)"
    by (simp add: results_make_response collect_results_def)
  show "(\<exists>text ct. format_response w (make_response w pargv kwargs vals) fmt dlen = Inr (text, ct))
         \<longleftrightarrow> fmt = ''json'' \<or> 0 \<le> dlen"
    using format_response_cases by blast
  show "format_response w (make_response w pargv kwargs vals) fmt dlen = Inl FormatSpecError
         \<longleftrightarrow> fmt \<noteq> ''json'' \<and> dlen < 0"
    using format_response_cases by blast
qed

theorem run_reports_returned_results_witness:
  "get_models (environ (stub_world second_raises)) ''image'' (Some ''vi'') =
     Inr [Llm ''gpt-4-vision-preview''
            [(''base_url'', PyStr ''https://fixie-westus.openai.azure.com'')],
          Llm ''gemini-pro-vision'' [],
          Llm ''gemini-1.5-pro-preview-0409'' []] \<and>
   benchmark (stub_world second_raises) 1 (full_argv (Llm_apply (Llm ''gemini-pro-vision'' [])
       (or_empty None) [])) = Raised \<and>
   returned (run (stub_world second_raises) ''image'' ''json'' 64 (Some ''vi'') False None [])
     = Inl InvocationRaised \<and>
   second_absent 0 = Returned (Some (stub_result ''0'')) \<and>
   second_absent 1 = Returned None \<and>
   second_absent 2 = Returned (Some (stub_result ''2'')) \<and>
   run (stub_world second_absent) ''image'' ''json'' 64 (Some ''vi'') True None [] =
     \<lparr>dispatched =
        invocations [Llm ''gpt-4-vision-preview''
            [(''base_url'', PyStr ''https://fixie-westus.openai.azure.com'')],
          Llm ''gemini-pro-vision'' [],
          Llm ''gemini-1.5-pro-preview-0409'' []] (or_empty None) [],
      stored =
        [(DEFAULT_GCS_BUCKET, store_path (stub_world second_absent) ''image'',
          json_dumps (stub_world second_absent) (make_response (stub_world second_absent) None []
            [Some (stub_result ''0''), None, Some (stub_result ''2'')]), ''application/json'')],
      returned = format_response (stub_world second_absent)
         (make_response (stub_world second_absent) None []
            [Some (stub_result ''0''), None, Some (stub_result ''2'')]) ''json'' 64\<rparr> \<and>
   results (make_response (stub_world second_absent) None []
       [Some (stub_result ''0''), None, Some (stub_result ''2'')])
     = [stub_result ''0'', stub_result ''2''] \<and>
   returned (run (stub_world second_absent) ''image'' ''json'' 64 (Some ''vi'') True None []) =
     Inr (''0,2'', ''application/json'')"
proof -
  let ?ms = "[Llm ''gpt-4-vision-preview''
            [(''base_url'', PyStr ''https://fixie-westus.openai.azure.com'')],
          Llm ''gemini-pro-vision'' [],
          Llm ''gemini-1.5-pro-preview-0409'' []]"
  let ?vals = "[Some (stub_result ''0''), None, Some (stub_result ''2'')]"
  have g: "get_models (environ (stub_world ends)) ''image'' (Some ''vi'') = Inr ?ms" for ends
    by (simp add: stub_environ image_vi)
  have r: "benchmark (stub_world second_raises) 1 (full_argv (Llm_apply (?ms ! 1)
       (or_empty None) [])) = Raised"
    by (simp add: stub_benchmark second_raises_def)
  then have e: "\<exists>i<length ?ms. benchmark (stub_world second_raises) i
      (full_argv (Llm_apply (?ms ! i) (or_empty None) [])) = Raised"
    by (intro exI[of _ 1]) simp
  have a: "\<forall>i<length ?ms. benchmark (stub_world second_absent) i
      (full_argv (Llm_apply (?ms ! i) (or_empty None) [])) = Returned (?vals ! i)"
    using second_absent_vals by (simp add: stub_benchmark)
  have v: "second_absent 0 = Returned (Some (stub_result ''0'')) \<and>
     second_absent 1 = Returned None \<and> second_absent 2 = Returned (Some (stub_result ''2''))"
    by code_simp
  have l: "length ?vals = length ?ms" by simp
  have c: "map the (filter (\<lambda>v. v \<noteq> None) ?vals) = [stub_result ''0'', stub_result ''2'']"
    by simp
  have j: "returned (run (stub_world second_absent) ''image'' ''json'' 64 (Some ''vi'') True None [])
      = Inr (''0,2'', ''application/json'')"
    by code_simp
  note t1 = run_reports_returned_results [where w = "stub_world second_raises" and mode = "''image''"
      and flt = "Some ''vi''" and ms = ?ms and pargv = None and kwargs = "[]" and fmt = "''json''"
      and dlen = 64 and store = False, THEN conjunct1, rule_format, OF conjI, OF g e]
  note t2 = run_reports_returned_results [where w = "stub_world second_absent" and mode = "''image''"
      and flt = "Some ''vi''" and ms = ?ms and pargv = None and kwargs = "[]" and fmt = "''json''"
      and dlen = 64 and store = True and vals = ?vals, THEN conjunct2, rule_format]
  have h: "get_models (environ (stub_world second_absent)) ''image'' (Some ''vi'') = Inr ?ms \<and>
      length ?vals = length ?ms \<and>
      (\<forall>i<length ?ms. benchmark (stub_world second_absent) i
        (full_argv (Llm_apply (?ms ! i) (or_empty None) [])) = Returned (?vals ! i))"
    using g l a by blast
  have t2': "run (stub_world second_absent) ''image'' ''json'' 64 (Some ''vi'') True None [] =
     \<lparr>dispatched = invocations ?ms (or_empty None) [],
      stored =
        [(DEFAULT_GCS_BUCKET, store_path (stub_world second_absent) ''image'',
          json_dumps (stub_world second_absent) (make_response (stub_world second_absent) None []
            ?vals), ''application/json'')],
      returned = format_response (stub_world second_absent)
         (make_response (stub_world second_absent) None [] ?vals) ''json'' 64\<rparr>"
    using t2[OF h, THEN conjunct1] by (simp only: stub_upload simp_thms if_True if_False)
  have t2'': "results (make_response (stub_world second_absent) None [] ?vals)
       = map the (filter (\<lambda>v. v \<noteq> None) ?vals)"
    using t2[OF h, THEN conjunct2, THEN conjunct1] .
  from t1 have "returned (run (stub_world second_raises) ''image'' ''json'' 64 (Some ''vi'') False
      None []) = Inl InvocationRaised" by simp
  with g r v t2' t2'' c j show ?thesis by simp
qed

text \<open>
  Claim C2 as stated fails: of three tasks the first and the third return a result and the
  second raises, and the run raises instead of returning a report with two results.
\<close>

theorem raising_task_aborts_run:
  "second_raises 0 = Returned (Some (stub_result ''0'')) \<and>
   second_raises 1 = Raised \<and>
   second_raises 2 = Returned (Some (stub_result ''2'')) \<and>
   run (stub_world second_raises) ''image'' ''json'' 64 (Some ''vi'') False None [] =
     \<lparr>dispatched =
        [[''--model=gpt-4-vision-preview'', ''--base-url=https://fixie-westus.openai.azure.com'',
          ''--format=none''],
         [''--model=gemini-pro-vision'', ''--format=none''],
         [''--model=gemini-1.5-pro-preview-0409'', ''--format=none'']],
      stored = [], returned = Inl InvocationRaised\<rparr>"
  by code_simp

text \<open>
  Claim C3, as the code has it. When every task has returned, the results of the report
  are exactly the values other than \<^verbatim>\<open>None\<close> that the tasks returned, in the order of the
  roster, and there are at most as many as the roster has entries; when every task
  returned \<^verbatim>\<open>None\<close> the report has an empty list of results. The run returns the rendering
  of this report, except that it raises when it was asked to store and the upload raises,
  and the rendering is a text exactly when the format is \<^verbatim>\<open>json\<close> or the display width is
  not negative. A task that has raised is not dropped: the run raises and there is no
  report.
\<close>

theorem results_are_returned_values:
  "(get_models (environ w) mode flt = Inr ms \<and>
    tasks w (invocations ms (or_empty pargv) kwargs) = map Returned vals \<longrightarrow>
      run w mode fmt dlen flt store pargv kwargs =
        \<lparr>dispatched = invocations ms (or_empty pargv) kwargs,
         stored =
           (if store
            then [(DEFAULT_GCS_BUCKET, store_path w mode,
                   json_dumps w (make_response w pargv kwargs vals), ''application/json'')]
            else []),
         returned =
           (if store \<and>
               \<not> upload w (DEFAULT_GCS_BUCKET, store_path w mode,
                    json_dumps w (make_response w pargv kwargs vals), ''application/json'')
            then Inl UploadFailed
            else format_response w (make_response w pargv kwargs vals) fmt dlen)\<rparr> \<and>
      map Some (results (make_response w pargv kwargs vals)) = filter (\<lambda>v. v \<noteq> None) vals \<and>
      length vals = length ms \<and>
      length (results (make_response w pargv kwargs vals)) \<le> length ms \<and>
      ((\<forall>v \<in> set vals. v = None) \<longrightarrow> results (make_response w pargv kwargs vals) = []) \<and>
      ((\<exists>text ct. format_response w (make_response w pargv kwargs vals) fmt dlen = Inr (text, ct))
         \<longleftrightarrow> fmt = ''json'' \<or> 0 \<le> dlen)) \<and>
   (get_models (environ w) mode flt = Inr ms \<and>
    Raised \<in> set (tasks w (invocations ms (or_empty pargv) kwargs)) \<longrightarrow>
      run w mode fmt dlen flt store pargv kwargs =
        \<lparr>dispatched = invocations ms (or_empty pargv) kwargs, stored = [],
         returned = Inl InvocationRaised\<rparr>)"
proof (intro conjI impI; (elim conjE)?)
  let ?resp = "make_response w pargv kwargs vals"
  assume ms: "get_models (environ w) mode flt = Inr ms"
    and t: "tasks w (invocations ms (or_empty pargv) kwargs) = map Returned vals"
  from run_joined_tasks[OF ms t, of fmt dlen store]
  show "run w mode fmt dlen flt store pargv kwargs =
        \<lparr>dispatched = invocations ms (or_empty pargv) kwargs,
         stored =
           (if store
            then [(DEFAULT_GCS_BUCKET, store_path w mode, json_dumps w ?resp, ''application/json'')]
            else []),
         returned =
           (if store \<and>
               \<not> upload w (DEFAULT_GCS_BUCKET, store_path w mode, json_dumps w ?resp,
                    ''application/json'')
            then Inl UploadFailed
            else format_response w ?resp fmt dlen)\<rparr>"
    by (simp add: Let_def)
  show "map Some (results ?resp) = filter (\<lambda>v. v \<noteq> None) vals"
    by (simp add: results_make_response collect_results_Some)
  have "length (tasks w (invocations ms (or_empty pargv) kwargs)) = length ms"
    by (simp add: length_tasks length_invocations)
  with t show l: "length vals = length ms" by simp
  have "length (results ?resp) \<le> length vals"
    by (simp add: results_make_response collect_results_def)
  with l show "length (results ?resp) \<le> length ms" by simp
  show "(\<exists>text ct. format_response w ?resp fmt dlen = Inr (text, ct))
         \<longleftrightarrow> fmt = ''json'' \<or> 0 \<le> dlen"
    using format_response_cases by blast
  assume "\<forall>v \<in> set vals. v = None"
  then show "results ?resp = []"
    by (simp add: results_make_response collect_results_def filter_empty_conv)
next
  assume "get_models (environ w) mode flt = Inr ms"
    and "Raised \<in> set (tasks w (invocations ms (or_empty pargv) kwargs))"
  then show "run w mode fmt dlen flt store pargv kwargs =
        \<lparr>dispatched = invocations ms (or_empty pargv) kwargs, stored = [],
         returned = Inl InvocationRaised\<rparr>"
    by (rule run_task_raised)
qed

theorem results_are_returned_values_witness:
  "get_models (environ (stub_world all_absent)) ''image'' (Some ''vi'') =
     Inr [Llm ''gpt-4-vision-preview''
            [(''base_url'', PyStr ''https://fixie-westus.openai.azure.com'')],
          Llm ''gemini-pro-vision'' [],
          Llm ''gemini-1.5-pro-preview-0409'' []] \<and>
   tasks (stub_world all_absent)
       (invocations [Llm ''gpt-4-vision-preview''
            [(''base_url'', PyStr ''https://fixie-westus.openai.azure.com'')],
          Llm ''gemini-pro-vision'' [],
          Llm ''gemini-1.5-pro-preview-0409'' []] (or_empty None) []) =
     map Returned [None, None, None] \<and>
   set [None, None, None :: unit bench_result option] = {None} \<and>
   results (make_response (stub_world all_absent) None [] [None, None, None]) = [] \<and>
   run (stub_world all_absent) ''image'' ''json'' 64 (Some ''vi'') False None [] =
     \<lparr>dispatched =
        [[''--model=gpt-4-vision-preview'', ''--base-url=https://fixie-westus.openai.azure.com'',
          ''--format=none''],
         [''--model=gemini-pro-vision'', ''--format=none''],
         [''--model=gemini-1.5-pro-preview-0409'', ''--format=none'']],
      stored = [], returned = Inr ('''', ''application/json'')\<rparr> \<and>
   get_models (environ (stub_world second_raises)) ''image'' (Some ''vi'') =
     Inr [Llm ''gpt-4-vision-preview''
            [(''base_url'', PyStr ''https://fixie-westus.openai.azure.com'')],
          Llm ''gemini-pro-vision'' [],
          Llm ''gemini-1.5-pro-preview-0409'' []] \<and>
   Raised \<in> set (tasks (stub_world second_raises)
       (invocations [Llm ''gpt-4-vision-preview''
            [(''base_url'', PyStr ''https://fixie-westus.openai.azure.com'')],
          Llm ''gemini-pro-vision'' [],
          Llm ''gemini-1.5-pro-preview-0409'' []] (or_empty None) [])) \<and>
   returned (run (stub_world second_raises) ''image'' ''text'' 64 (Some ''vi'') False None []) =
     Inl InvocationRaised"
proof -
  let ?ms = "[Llm ''gpt-4-vision-preview''
            [(''base_url'', PyStr ''https://fixie-westus.openai.azure.com'')],
          Llm ''gemini-pro-vision'' [],
          Llm ''gemini-1.5-pro-preview-0409'' []]"
  let ?vals = "[None, None, None :: unit bench_result option]"
  have g: "get_models (environ (stub_world ends)) ''image'' (Some ''vi'') = Inr ?ms" for ends
    by (simp add: stub_environ image_vi)
  have t: "tasks (stub_world all_absent) (invocations ?ms (or_empty None) []) =
      map Returned ?vals"
    by (simp add: tasks_def invocations_def stub_benchmark all_absent_def)
  have a: "\<forall>v \<in> set ?vals. v = None" and a': "set ?vals = {None}" by simp_all
  have q: "Raised \<in> set (tasks (stub_world second_raises) (invocations ?ms (or_empty None) []))"
    by (simp add: tasks_def invocations_def stub_benchmark second_raises_def)
  have e: "run (stub_world all_absent) ''image'' ''json'' 64 (Some ''vi'') False None [] =
     \<lparr>dispatched =
        [[''--model=gpt-4-vision-preview'', ''--base-url=https://fixie-westus.openai.azure.com'',
          ''--format=none''],
         [''--model=gemini-pro-vision'', ''--format=none''],
         [''--model=gemini-1.5-pro-preview-0409'', ''--format=none'']],
      stored = [], returned = Inr ('''', ''application/json'')\<rparr>"
    by code_simp
  note t1 = results_are_returned_values [where w = "stub_world all_absent" and mode = "''image''"
      and flt = "Some ''vi''" and ms = ?ms and pargv = None and kwargs = "[]" and fmt = "''json''"
      and dlen = 64 and store = False and vals = ?vals, THEN conjunct1, rule_format, OF conjI,
      OF g t]
  note t2 = results_are_returned_values [where w = "stub_world second_raises"
      and mode = "''image''" and flt = "Some ''vi''" and ms = ?ms and pargv = None
      and kwargs = "[]" and fmt = "''text''" and dlen = 64 and store = False,
      THEN conjunct2, rule_format, OF conjI, OF g q]
  have n: "results (make_response (stub_world all_absent) None [] ?vals) = []"
    by (rule t1[THEN conjunct2, THEN conjunct2, THEN conjunct2, THEN conjunct2, THEN conjunct1,
          THEN mp, OF a])
  have r: "returned (run (stub_world second_raises) ''image'' ''text'' 64 (Some ''vi'')
      False None []) = Inl InvocationRaised"
    by (simp only: t2 run_out.simps)
  show ?thesis
    using g[of all_absent] t a' n e g[of second_raises] q r
    by (simp only: simp_thms)
qed

text \<open>
  Claim C3 as stated fails: the only task of the audio roster raises, so that no invocation
  has succeeded, and the run raises instead of returning a report with no results.
\<close>

theorem all_raising_gives_no_report:
  "all_raise 0 = Raised \<and>
   run (stub_world all_raise) ''audio'' ''json'' 64 None False None [] =
     \<lparr>dispatched = [[''--model=gemini-1.5-pro-preview-0409'', ''--format=none'']],
      stored = [], returned = Inl InvocationRaised\<rparr>"
  by code_simp

text \<open>
  Claim C7, as the code has it. A run that is not asked to store sends nothing to the
  bucket, and no run sends more than one blob. A run that is asked to store sends nothing
  when the mode is unknown or a task raises, and exactly one blob when its tasks have all
  returned: the key is the region, the mode and the date of the time stamp taken at the
  start of the run, as \<^verbatim>\<open>region/mode/YYYY-MM-DD.json\<close>, and the text is the rendering of the
  report in the format \<^verbatim>\<open>json\<close>, whatever format the run was asked for.
\<close>

theorem stored_once_when_requested:
  "(\<not> store \<longrightarrow> stored (run w mode fmt dlen flt store pargv kwargs) = []) \<and>
   length (stored (run w mode fmt dlen flt store pargv kwargs)) \<le> 1 \<and>
   (mode \<notin> {''text'', ''image'', ''audio'', ''video''} \<longrightarrow>
      stored (run w mode fmt dlen flt store pargv kwargs) = []) \<and>
   (get_models (environ w) mode flt = Inr ms \<and>
    Raised \<in> set (tasks w (invocations ms (or_empty pargv) kwargs)) \<longrightarrow>
      stored (run w mode fmt dlen flt store pargv kwargs) = []) \<and>
   (store \<and> get_models (environ w) mode flt = Inr ms \<and>
    tasks w (invocations ms (or_empty pargv) kwargs) = map Returned vals \<longrightarrow>
      stored (run w mode fmt dlen flt store pargv kwargs) =
        [(DEFAULT_GCS_BUCKET,
          region_of w @ ''/'' @ mode @ ''/'' @ isodate (now w) @ ''.json'',
          json_dumps w (make_response w pargv kwargs vals), ''application/json'')] \<and>
      format_response w (make_response w pargv kwargs vals) ''json'' dlen =
        Inr (json_dumps w (make_response w pargv kwargs vals), ''application/json'')) \<and>
   (year (now w) < 10000 \<and> month (now w) < 100 \<and> day (now w) < 100 \<longrightarrow>
      (\<exists>y m dd. isodate (now w) = y @ ''-'' @ m @ ''-'' @ dd \<and> length y = 4 \<and> length m = 2 \<and>
         length dd = 2 \<and> set y \<union> set m \<union> set dd \<subseteq> set ''0123456789''))"
proof (intro conjI impI; (elim conjE)?)
  let ?run = "run w mode fmt dlen flt store pargv kwargs"
  show "stored ?run = []" if "\<not> store"
    using that
    by (simp add: run_def Let_def format_json split: sum.splits)
  show "length (stored ?run) \<le> 1"
    by (simp add: run_def Let_def format_json split: sum.splits)
next
  assume "mode \<notin> {''text'', ''image'', ''audio'', ''video''}"
  then have "mode_map (environ w) mode = None" by (simp add: mode_map_None)
  then show "stored (run w mode fmt dlen flt store pargv kwargs) = []"
    by (simp add: run_unknown_mode)
next
  assume "get_models (environ w) mode flt = Inr ms"
    and "Raised \<in> set (tasks w (invocations ms (or_empty pargv) kwargs))"
  then show "stored (run w mode fmt dlen flt store pargv kwargs) = []"
    by (simp add: run_task_raised)
next
  assume "store" and ms: "get_models (environ w) mode flt = Inr ms"
    and t: "tasks w (invocations ms (or_empty pargv) kwargs) = map Returned vals"
  with run_joined_tasks[OF ms t, of fmt dlen store]
  show "stored (run w mode fmt dlen flt store pargv kwargs) =
        [(DEFAULT_GCS_BUCKET,
          region_of w @ ''/'' @ mode @ ''/'' @ isodate (now w) @ ''.json'',
          json_dumps w (make_response w pargv kwargs vals), ''application/json'')]"
    by (simp add: Let_def store_path_def split_T_0_isoformat)
  show "format_response w (make_response w pargv kwargs vals) ''json'' dlen =
        Inr (json_dumps w (make_response w pargv kwargs vals), ''application/json'')"
    by (rule format_json)
next
  assume "year (now w) < 10000" "month (now w) < 100" "day (now w) < 100"
  then show "\<exists>y m dd. isodate (now w) = y @ ''-'' @ m @ ''-'' @ dd \<and> length y = 4 \<and>
      length m = 2 \<and> length dd = 2 \<and> set y \<union> set m \<union> set dd \<subseteq> set ''0123456789''"
    by (rule isodate_shape)
qed

theorem stored_once_when_requested_witness:
  "stored (run (stub_world second_absent) ''image'' ''text'' 64 (Some ''vi'') False None []) = [] \<and>
   ''speech'' \<notin> {''text'', ''image'', ''audio'', ''video''} \<and>
   stored (run (stub_world second_absent) ''speech'' ''text'' 64 None True None []) = [] \<and>
   get_models (environ (stub_world second_raises)) ''image'' (Some ''vi'') =
     Inr [Llm ''gpt-4-vision-preview''
            [(''base_url'', PyStr ''https://fixie-westus.openai.azure.com'')],
          Llm ''gemini-pro-vision'' [],
          Llm ''gemini-1.5-pro-preview-0409'' []] \<and>
   Raised \<in> set (tasks (stub_world second_raises)
       (invocations [Llm ''gpt-4-vision-preview''
            [(''base_url'', PyStr ''https://fixie-westus.openai.azure.com'')],
          Llm ''gemini-pro-vision'' [],
          Llm ''gemini-1.5-pro-preview-0409'' []] (or_empty None) [])) \<and>
   stored (run (stub_world second_raises) ''image'' ''text'' 64 (Some ''vi'') True None []) = [] \<and>
   get_models (environ (stub_world second_absent)) ''image'' (Some ''vi'') =
     Inr [Llm ''gpt-4-vision-preview''
            [(''base_url'', PyStr ''https://fixie-westus.openai.azure.com'')],
          Llm ''gemini-pro-vision'' [],
          Llm ''gemini-1.5-pro-preview-0409'' []] \<and>
   tasks (stub_world second_absent)
       (invocations [Llm ''gpt-4-vision-preview''
            [(''base_url'', PyStr ''https://fixie-westus.openai.azure.com'')],
          Llm ''gemini-pro-vision'' [],
          Llm ''gemini-1.5-pro-preview-0409'' []] (or_empty None) []) =
     map Returned [Some (stub_result ''0''), None, Some (stub_result ''2'')] \<and>
   stored (run (stub_world second_absent) ''image'' ''text'' 64 (Some ''vi'') True None []) =
     [(''thefastest-data'', ''local/image/2024-05-01.json'', ''0,2'', ''application/json'')] \<and>
   year (now (stub_world second_absent)) < 10000 \<and> month (now (stub_world second_absent)) < 100 \<and>
   day (now (stub_world second_absent)) < 100 \<and>
   isodate (now (stub_world second_absent)) = ''2024'' @ ''-'' @ ''05'' @ ''-'' @ ''01''"
proof -
  let ?w = "stub_world second_absent"
  let ?r = "stub_world second_raises"
  let ?ms = "[Llm ''gpt-4-vision-preview''
            [(''base_url'', PyStr ''https://fixie-westus.openai.azure.com'')],
          Llm ''gemini-pro-vision'' [],
          Llm ''gemini-1.5-pro-preview-0409'' []]"
  let ?vals = "[Some (stub_result ''0''), None, Some (stub_result ''2'')]"
  have g: "get_models (environ (stub_world ends)) ''image'' (Some ''vi'') = Inr ?ms" for ends
    by (simp add: stub_environ image_vi)
  have t: "tasks ?w (invocations ?ms (or_empty None) []) = map Returned ?vals"
    by code_simp
  have q: "Raised \<in> set (tasks ?r (invocations ?ms (or_empty None) []))"
    by (simp add: tasks_def invocations_def stub_benchmark second_raises_def)
  have u: "''speech'' \<notin> {''text'', ''image'', ''audio'', ''video''}" by simp
  have d: "year (now ?w) < 10000 \<and> month (now ?w) < 100 \<and> day (now ?w) < 100"
    by (simp add: stub_world_def)
  have i: "isodate (now ?w) = ''2024'' @ ''-'' @ ''05'' @ ''-'' @ ''01''"
    by code_simp
  have b: "(DEFAULT_GCS_BUCKET, region_of ?w @ ''/'' @ ''image'' @ ''/'' @ isodate (now ?w) @ ''.json'',
          json_dumps ?w (make_response ?w None [] ?vals), ''application/json'') =
        (''thefastest-data'', ''local/image/2024-05-01.json'', ''0,2'', ''application/json'')"
    by code_simp
  have n: "stored (run ?w ''image'' ''text'' 64 (Some ''vi'') False None []) = []"
    by (rule stored_once_when_requested [where w = ?w and mode = "''image''" and fmt = "''text''"
        and dlen = 64 and flt = "Some ''vi''" and store = False and pargv = None and kwargs = "[]",
        THEN conjunct1, THEN mp, OF not_False_eq_True[THEN iffD2, OF TrueI]])
  have m: "stored (run ?w ''speech'' ''text'' 64 None True None []) = []"
    by (rule stored_once_when_requested [where w = ?w and mode = "''speech''" and fmt = "''text''"
        and dlen = 64 and flt = None and store = True and pargv = None and kwargs = "[]",
        THEN conjunct2, THEN conjunct2, THEN conjunct1, THEN mp, OF u])
  have x: "stored (run ?r ''image'' ''text'' 64 (Some ''vi'') True None []) = []"
    by (rule stored_once_when_requested [where w = ?r and mode = "''image''" and fmt = "''text''"
        and dlen = 64 and flt = "Some ''vi''" and store = True and pargv = None and kwargs = "[]"
        and ms = ?ms, THEN conjunct2, THEN conjunct2, THEN conjunct2, THEN conjunct1, THEN mp,
        OF conjI, OF g q])
  have s: "stored (run ?w ''image'' ''text'' 64 (Some ''vi'') True None []) =
      [(''thefastest-data'', ''local/image/2024-05-01.json'', ''0,2'', ''application/json'')]"
    using stored_once_when_requested [where w = ?w and mode = "''image''" and fmt = "''text''"
        and dlen = 64 and flt = "Some ''vi''" and store = True and pargv = None and kwargs = "[]"
        and ms = ?ms and vals = ?vals, THEN conjunct2, THEN conjunct2, THEN conjunct2,
        THEN conjunct2, THEN conjunct1, THEN mp, OF conjI, OF TrueI, OF conjI, OF g t,
        THEN conjunct1]
    by (simp only: b)
  show ?thesis
    using n u m g[of second_raises] q x g[of second_absent] t s d i
    by (simp only: simp_thms)
qed

text \<open>
  Claim C7 as stated fails: two runs are asked to store, one with a task that raises and
  one with an unknown mode, and neither sends a blob.
\<close>

theorem toggle_set_nothing_stored:
  "second_raises 1 = Raised \<and>
   run (stub_world second_raises) ''image'' ''json'' 64 (Some ''vi'') True None [] =
     \<lparr>dispatched =
        [[''--model=gpt-4-vision-preview'', ''--base-url=https://fixie-westus.openai.azure.com'',
          ''--format=none''],
         [''--model=gemini-pro-vision'', ''--format=none''],
         [''--model=gemini-1.5-pro-preview-0409'', ''--format=none'']],
      stored = [], returned = Inl InvocationRaised\<rparr> \<and>
   run (stub_world second_absent) ''speech'' ''json'' 64 None True None [] =
     \<lparr>dispatched = [], stored = [], returned = Inl (UnknownMode ''speech'')\<rparr>"
  by code_simp

end
